theory Spec2Isabelle
  imports Main "HOL-Library.Word"
begin

section \<open>Types and values of the C++ program\<close>

text \<open>
  The header \<^verbatim>\<open>optionalargs.h\<close> is a template library: which branch of a lookup
  runs is decided by the static types of the arguments (\<^verbatim>\<open>std::is_same_v\<close>,
  \<^verbatim>\<open>std::is_convertible_v\<close> under \<^verbatim>\<open>if constexpr\<close>). The embedding therefore
  makes types first-class: every value carries its C++ type, and a lookup takes the target
  type \<open>T\<close> as an ordinary argument.

  Scalar types covered: \<^verbatim>\<open>int\<close> (32 bits), \<^verbatim>\<open>bool\<close>, and unscoped enumerations with
  underlying type \<^verbatim>\<open>int\<close>, identified by the namespace they are declared in (the empty
  string is the global namespace) and their name. The value types of options are scalar.
\<close>

datatype stype = IntT | BoolT | EnumT string string

datatype sval = IntV "32 word" | BoolV bool | EnumV string string "32 word"

fun stype_of :: "sval \<Rightarrow> stype" where
  "stype_of (IntV n) = IntT"
| "stype_of (BoolV b) = BoolT"
| "stype_of (EnumV ns nm n) = EnumT ns nm"

text \<open>Value-initialisation \<^verbatim>\<open>ValueType_t m_value{}\<close>: the zero of the type.\<close>

fun zero_value :: "stype \<Rightarrow> sval" where
  "zero_value IntT = IntV 0"
| "zero_value BoolT = BoolV False"
| "zero_value (EnumT ns nm) = EnumV ns nm 0"

text \<open>
  What can go wrong. The first three are rejections by the compiler (the program is
  ill-formed and nothing runs); the last is the exception of \<^verbatim>\<open>new int[n]\<close> for a
  negative \<open>n\<close>.
\<close>

datatype error =
    NoMember_m_value
  | NotConvertible
  | NoMatchingOverload
  | BadArrayNewLength

text \<open>
  \<^verbatim>\<open>std::is_convertible_v<From, To>\<close> between scalar types: a type converts to itself;
  \<^verbatim>\<open>int\<close>, \<^verbatim>\<open>bool\<close> and unscoped enumerations convert to \<^verbatim>\<open>int\<close> and to \<^verbatim>\<open>bool\<close>;
  nothing else converts implicitly to an enumeration.
\<close>

fun is_convertible_s :: "stype \<Rightarrow> stype \<Rightarrow> bool" where
  "is_convertible_s from IntT = True"
| "is_convertible_s from BoolT = True"
| "is_convertible_s from (EnumT ns nm) = (from = EnumT ns nm)"

text \<open>The implicit conversion itself, as performed by an initialisation or a \<^verbatim>\<open>return\<close>.\<close>

fun implicit_conversion :: "stype \<Rightarrow> sval \<Rightarrow> error + sval" where
  "implicit_conversion IntT (IntV n) = Inr (IntV n)"
| "implicit_conversion IntT (BoolV b) = Inr (IntV (if b then 1 else 0))"
| "implicit_conversion IntT (EnumV ns nm n) = Inr (IntV n)"
| "implicit_conversion BoolT (IntV n) = Inr (BoolV (n \<noteq> 0))"
| "implicit_conversion BoolT (BoolV b) = Inr (BoolV b)"
| "implicit_conversion BoolT (EnumV ns nm n) = Inr (BoolV (n \<noteq> 0))"
| "implicit_conversion (EnumT ns nm) v =
     (if stype_of v = EnumT ns nm then Inr v else Inl NotConvertible)"

subsection \<open>Option types\<close>

text \<open>
  \<^verbatim>\<open>CompileTimeStringLiteral_t<N>\<close> wraps the characters of a string literal so that a
  template can be parameterised by it; two of them are the same template argument exactly
  when the characters are the same.
\<close>

type_synonym CompileTimeStringLiteral_t = string

text \<open>
  The two class templates. A specialisation is identified by its template arguments:
  value type, (default value,) file name tag and line number tag.
\<close>

datatype otype =
    OptionalArg_t stype CompileTimeStringLiteral_t "32 word"
  | OptionalArgWithDefault_t stype sval CompileTimeStringLiteral_t "32 word"

fun ValueType_t :: "otype \<Rightarrow> stype" where
  "ValueType_t (OptionalArg_t V filenameTag lineNumberTag) = V"
| "ValueType_t (OptionalArgWithDefault_t V defaultValue filenameTag lineNumberTag) = V"

text \<open>
  The macros, with \<^verbatim>\<open>__FILE__\<close> and \<^verbatim>\<open>__LINE__\<close> of the declaration passed
  explicitly.
\<close>

definition DECLARE_OPTION :: "stype \<Rightarrow> string \<Rightarrow> 32 word \<Rightarrow> otype" where
  "DECLARE_OPTION V file line = OptionalArg_t V file line"

definition DECLARE_OPTION_DEFAULT :: "stype \<Rightarrow> sval \<Rightarrow> string \<Rightarrow> 32 word \<Rightarrow> otype" where
  "DECLARE_OPTION_DEFAULT V defaultValue file line =
     OptionalArgWithDefault_t V defaultValue file line"

text \<open>
  A C++ type that can appear as a lookup target or as the type of an argument, and a
  C++ value: a bare scalar, or an instance of an option type with its one member
  \<^verbatim>\<open>m_value\<close>.
\<close>

datatype ctype = ScalarT stype | OptionT otype

datatype cval = ScalarV sval | OptionV otype sval

fun type_of :: "cval \<Rightarrow> ctype" where
  "type_of (ScalarV s) = ScalarT (stype_of s)"
| "type_of (OptionV ot v) = OptionT ot"

text \<open>\<^verbatim>\<open>x.m_value\<close>: only the option structs have such a member.\<close>

fun member_m_value :: "cval \<Rightarrow> error + sval" where
  "member_m_value (ScalarV s) = Inl NoMember_m_value"
| "member_m_value (OptionV ot v) = Inr v"

text \<open>
  Default construction \<^verbatim>\<open>T tmp;\<close> / \<^verbatim>\<open>T()\<close> runs the default member initialiser:
  \<^verbatim>\<open>m_value{}\<close> for \<^verbatim>\<open>OptionalArg_t\<close>, \<^verbatim>\<open>m_value = defaultValue\<close> (an implicit
  conversion of the \<^verbatim>\<open>auto\<close> template argument to the value type) for
  \<^verbatim>\<open>OptionalArgWithDefault_t\<close>.
\<close>

fun default_construct :: "otype \<Rightarrow> error + cval" where
  "default_construct (OptionalArg_t V f l) =
     Inr (OptionV (OptionalArg_t V f l) (zero_value V))"
| "default_construct (OptionalArgWithDefault_t V defaultValue f l) =
     (case implicit_conversion V defaultValue of
        Inl e \<Rightarrow> Inl e
      | Inr v \<Rightarrow> Inr (OptionV (OptionalArgWithDefault_t V defaultValue f l) v))"

text \<open>Construction from an explicit value, \<^verbatim>\<open>T(x)\<close>: aggregate initialisation of \<^verbatim>\<open>m_value\<close>.\<close>

definition construct :: "otype \<Rightarrow> sval \<Rightarrow> error + cval" where
  "construct ot x =
     (case implicit_conversion (ValueType_t ot) x of
        Inl e \<Rightarrow> Inl e
      | Inr v \<Rightarrow> Inr (OptionV ot v))"

section \<open>The lookups\<close>

text \<open>The statements \<^verbatim>\<open>T tmp; return tmp.m_value;\<close>.\<close>

fun tmp_m_value :: "ctype \<Rightarrow> error + sval" where
  "tmp_m_value (ScalarT t) = Inl NoMember_m_value"
| "tmp_m_value (OptionT ot) =
     (case default_construct ot of Inl e \<Rightarrow> Inl e | Inr tmp \<Rightarrow> member_m_value tmp)"

text \<open>
  Argument-dependent lookup. The recursive calls inside the variadic templates are
  dependent calls. The candidates of such a call are the overloads declared before the
  template (the no-argument one and the variadic one itself), plus those that
  argument-dependent lookup finds at the point of instantiation. The single-argument
  overloads are declared after the variadic ones, in the global namespace, so inside the
  recursion they are candidates only when the global namespace is associated with the
  type of some argument of the call: it is for the option structs (the templates live in
  the global namespace) and for an enumeration declared there; fundamental types have no
  associated namespace.
\<close>

fun adl_global :: "cval \<Rightarrow> bool" where
  "adl_global (OptionV ot v) = True"
| "adl_global (ScalarV (EnumV ns nm n)) = (ns = [])"
| "adl_global (ScalarV (IntV n)) = False"
| "adl_global (ScalarV (BoolV b)) = False"

subsection \<open>\<^verbatim>\<open>GetOptionValue\<close>\<close>

text \<open>Lines 40-45: no arguments.\<close>

definition GetOptionValue_0 :: "ctype \<Rightarrow> error + sval" where
  "GetOptionValue_0 T = tmp_m_value T"

text \<open>Lines 60-72: exactly one argument.\<close>

definition GetOptionValue_1 :: "ctype \<Rightarrow> cval \<Rightarrow> error + sval" where
  "GetOptionValue_1 T arg =
     (if type_of arg = T then member_m_value arg else tmp_m_value T)"

text \<open>
  Lines 47-58: a first argument and a pack; \<open>rec\<close> is the value of the recursive call
  \<^verbatim>\<open>GetOptionValue<T>( restArgs... )\<close>, which is only instantiated in the else branch.
\<close>

definition GetOptionValue_n :: "ctype \<Rightarrow> cval \<Rightarrow> error + sval \<Rightarrow> error + sval" where
  "GetOptionValue_n T arg rec =
     (if type_of arg = T then member_m_value arg else rec)"

text \<open>
  Overload resolution. The flag says whether the single-argument overload is found by
  ordinary lookup, as it is at a call site that follows the header; the recursive call
  inside the variadic template passes \<open>False\<close> and relies on \<open>adl_global\<close>. With one
  argument both the single-argument and the variadic template (with an empty pack) are
  viable, and the non-variadic one is the more specialised.
\<close>

fun GetOptionValue_from :: "bool \<Rightarrow> ctype \<Rightarrow> cval list \<Rightarrow> error + sval" where
  "GetOptionValue_from visible T [] = GetOptionValue_0 T"
| "GetOptionValue_from visible T [arg] =
     (if visible \<or> adl_global arg then GetOptionValue_1 T arg
      else GetOptionValue_n T arg (GetOptionValue_from False T []))"
| "GetOptionValue_from visible T (arg # a # restArgs) =
     GetOptionValue_n T arg (GetOptionValue_from False T (a # restArgs))"

definition GetOptionValue :: "ctype \<Rightarrow> cval list \<Rightarrow> error + sval" where
  "GetOptionValue T args = GetOptionValue_from True T args"

subsection \<open>\<^verbatim>\<open>GetOptionValueWithDefault\<close>\<close>

text \<open>
  The supplied default is a scalar; \<^verbatim>\<open>ValueType_t\<close> of these templates is deduced from
  it, so it is \<open>stype_of defaultValue\<close>, and every \<^verbatim>\<open>return\<close> converts to it.

  \<^verbatim>\<open>std::is_convertible_v<FirstArgType_t, ValueType_t>\<close>: the option structs have no
  conversion function, so they convert to no scalar type.
\<close>

fun is_convertible :: "ctype \<Rightarrow> stype \<Rightarrow> bool" where
  "is_convertible (ScalarT from) to = is_convertible_s from to"
| "is_convertible (OptionT ot) to = False"

text \<open>\<^verbatim>\<open>return arg;\<close> in a function whose return type is the scalar type \<open>VT\<close>.\<close>

fun return_arg :: "stype \<Rightarrow> cval \<Rightarrow> error + sval" where
  "return_arg VT (ScalarV s) = implicit_conversion VT s"
| "return_arg VT (OptionV ot v) = Inl NotConvertible"

text \<open>\<^verbatim>\<open>return arg.m_value;\<close> in such a function.\<close>

definition return_m_value :: "stype \<Rightarrow> cval \<Rightarrow> error + sval" where
  "return_m_value VT arg =
     (case member_m_value arg of Inl e \<Rightarrow> Inl e | Inr v \<Rightarrow> implicit_conversion VT v)"

text \<open>Lines 75-79: no arguments after the default.\<close>

definition GetOptionValueWithDefault_0 :: "ctype \<Rightarrow> sval \<Rightarrow> error + sval" where
  "GetOptionValueWithDefault_0 T defaultValue = Inr defaultValue"

text \<open>Lines 101-112: exactly one argument after the default.\<close>

definition GetOptionValueWithDefault_1 :: "ctype \<Rightarrow> sval \<Rightarrow> cval \<Rightarrow> error + sval" where
  "GetOptionValueWithDefault_1 T defaultValue arg =
     (if type_of arg = T then return_m_value (stype_of defaultValue) arg
      else Inr defaultValue)"

text \<open>
  Lines 81-99: a first argument and a pack; \<open>rec\<close> is the value of the recursive call
  \<^verbatim>\<open>GetOptionValueWithDefault<T>( defaultValue, restArgs... )\<close>.
\<close>

definition GetOptionValueWithDefault_n ::
  "ctype \<Rightarrow> sval \<Rightarrow> cval \<Rightarrow> error + sval \<Rightarrow> error + sval" where
  "GetOptionValueWithDefault_n T defaultValue arg rec =
     (if type_of arg = T then
        (if is_convertible (type_of arg) (stype_of defaultValue)
         then return_arg (stype_of defaultValue) arg
         else return_m_value (stype_of defaultValue) arg)
      else rec)"

text \<open>
  Overload resolution, as for \<open>GetOptionValue_from\<close>; the default is an argument of the
  recursive call too, so its type takes part in argument-dependent lookup.
\<close>

fun GetOptionValueWithDefault_from ::
  "bool \<Rightarrow> ctype \<Rightarrow> sval \<Rightarrow> cval list \<Rightarrow> error + sval" where
  "GetOptionValueWithDefault_from visible T defaultValue [] =
     GetOptionValueWithDefault_0 T defaultValue"
| "GetOptionValueWithDefault_from visible T defaultValue [arg] =
     (if visible \<or> adl_global (ScalarV defaultValue) \<or> adl_global arg
      then GetOptionValueWithDefault_1 T defaultValue arg
      else GetOptionValueWithDefault_n T defaultValue arg
             (GetOptionValueWithDefault_from False T defaultValue []))"
| "GetOptionValueWithDefault_from visible T defaultValue (arg # a # restArgs) =
     GetOptionValueWithDefault_n T defaultValue arg
       (GetOptionValueWithDefault_from False T defaultValue (a # restArgs))"

definition GetOptionValueWithDefault :: "ctype \<Rightarrow> sval \<Rightarrow> cval list \<Rightarrow> error + sval" where
  "GetOptionValueWithDefault T defaultValue args =
     GetOptionValueWithDefault_from True T defaultValue args"

section \<open>The sample class with option setters\<close>

text \<open>
  The options of namespace \<^verbatim>\<open>opt\<close>, declared at lines 120 and 121 of the header; the
  value of \<^verbatim>\<open>__FILE__\<close> there depends on how the header is included and is a parameter.
\<close>

definition opt_ItemCount :: "string \<Rightarrow> otype" where
  "opt_ItemCount file = DECLARE_OPTION_DEFAULT IntT (IntV 256) file 120"

definition opt_VerboseLogs :: "string \<Rightarrow> otype" where
  "opt_VerboseLogs file = DECLARE_OPTION_DEFAULT BoolT (BoolV False) file 121"

text \<open>
  The data members of \<^verbatim>\<open>TestClass\<close>. \<open>m_pData\<close> is \<open>None\<close> for the null pointer and
  \<open>Some n\<close> for an array of \<open>n\<close> (uninitialised) ints.
\<close>

record TestClass =
  m_nNumItems :: "32 word"
  m_pData :: "nat option"
  m_bVerboseLogs :: bool

text \<open>The default member initialisers (lines 158-160).\<close>

definition TestClass_init :: TestClass where
  "TestClass_init = \<lparr>m_nNumItems = 101, m_pData = None, m_bVerboseLogs = False\<rparr>"

text \<open>
  \<^verbatim>\<open>Log\<close> is not defined in the header; a call is recorded with its format string and
  its arguments.
\<close>

datatype log_arg = LogStr string | LogInt "32 word"

type_synonym log_call = "string \<times> log_arg list"

text \<open>
  The two overloads of \<^verbatim>\<open>SetOption\<close> (lines 156-157), selected by the static type of
  the argument; any other argument type has no viable overload. An instance of
  \<^verbatim>\<open>opt::ItemCount\<close> holds an \<^verbatim>\<open>int\<close> and one of \<^verbatim>\<open>opt::VerboseLogs\<close> a \<^verbatim>\<open>bool\<close>.
\<close>

fun SetOption :: "string \<Rightarrow> cval \<Rightarrow> TestClass \<Rightarrow> error + TestClass" where
  "SetOption file (OptionV ot (IntV n)) this =
     (if ot = opt_ItemCount file then Inr (this\<lparr>m_nNumItems := n\<rparr>)
      else Inl NoMatchingOverload)"
| "SetOption file (OptionV ot (BoolV b)) this =
     (if ot = opt_VerboseLogs file then Inr (this\<lparr>m_bVerboseLogs := b\<rparr>)
      else Inl NoMatchingOverload)"
| "SetOption file x this = Inl NoMatchingOverload"

text \<open>The fold expression \<^verbatim>\<open>( SetOption( options), ...)\<close>: left to right.\<close>

fun SetOptions :: "string \<Rightarrow> cval list \<Rightarrow> TestClass \<Rightarrow> error + TestClass" where
  "SetOptions file [] this = Inr this"
| "SetOptions file (x # xs) this =
     (case SetOption file x this of
        Inl e \<Rightarrow> Inl e
      | Inr this' \<Rightarrow> SetOptions file xs this')"

text \<open>
  The constructor (lines 143-154): the object after construction and the calls of
  \<^verbatim>\<open>Log\<close> it made. \<^verbatim>\<open>new int[n]\<close> throws for a negative \<open>n\<close>; memory is assumed
  sufficient otherwise.
\<close>

definition TestClass_ctor ::
  "string \<Rightarrow> string \<Rightarrow> cval list \<Rightarrow> error + (TestClass \<times> log_call list)" where
  "TestClass_ctor file pMsg options =
     (case SetOptions file options TestClass_init of
        Inl e \<Rightarrow> Inl e
      | Inr this \<Rightarrow>
          if sint (m_nNumItems this) < 0 then Inl BadArrayNewLength
          else
            Inr (this\<lparr>m_pData := Some (nat (sint (m_nNumItems this)))\<rparr>,
                 (''TestClass'', [LogStr pMsg]) #
                 (if m_bVerboseLogs this
                  then [(''item count=%d'', [LogInt (m_nNumItems this)])]
                  else [])))"

section \<open>Properties of \<^verbatim>\<open>GetOptionValue\<close>\<close>

lemma GetOptionValue_from_find:
  "GetOptionValue_from visible T args =
     (case find (\<lambda>a. type_of a = T) args of
        None \<Rightarrow> tmp_m_value T
      | Some a \<Rightarrow> member_m_value a)"
  by (induction visible T args rule: GetOptionValue_from.induct)
     (simp_all add: GetOptionValue_0_def GetOptionValue_1_def GetOptionValue_n_def)

lemma find_first_match:
  assumes "\<forall>a \<in> set pre. \<not> P a" and "P x"
  shows "find P (pre @ x # post) = Some x"
  using assms by (induction pre) simp_all

lemma find_no_match:
  assumes "\<forall>a \<in> set xs. \<not> P a"
  shows "find P xs = None"
  using assms by (induction xs) simp_all

lemma find_unique:
  assumes "length (filter P xs) = 1" and "x \<in> set xs" and "P x"
  shows "find P xs = Some x"
  using assms
proof (induction xs)
  case Nil
  then show ?case by simp
next
  case (Cons y ys)
  show ?case
  proof (cases "P y")
    case True
    with Cons.prems(1) have "filter P ys = []" by simp
    then have "\<forall>a \<in> set ys. \<not> P a" by (simp add: filter_empty_conv)
    with Cons.prems(2,3) have "x = y" by auto
    with True show ?thesis by simp
  next
    case False
    with Cons.prems have "length (filter P ys) = 1" "x \<in> set ys" by auto
    with Cons.IH Cons.prems(3) False show ?thesis by simp
  qed
qed

text \<open>
  Claim C1. When the argument sequence holds exactly one instance of the option type
  \<open>T\<close>, with payload \<open>v\<close>, \<^verbatim>\<open>GetOptionValue<T>\<close> returns \<open>v\<close>, wherever the instance
  stands and whatever the other arguments are.
\<close>

theorem GetOptionValue_presence:
  assumes "length (filter (\<lambda>a. type_of a = OptionT ot) args) = 1"
    and "OptionV ot v \<in> set args"
  shows "GetOptionValue (OptionT ot) args = Inr v"
proof -
  have "find (\<lambda>a. type_of a = OptionT ot) args = Some (OptionV ot v)"
    using assms by (intro find_unique) simp_all
  then show ?thesis
    by (simp add: GetOptionValue_def GetOptionValue_from_find)
qed

theorem GetOptionValue_presence_witness:
  "length (filter (\<lambda>a. type_of a = OptionT (opt_ItemCount ''optionalargs.h''))
       [OptionV (opt_VerboseLogs ''optionalargs.h'') (BoolV True),
        OptionV (opt_ItemCount ''optionalargs.h'') (IntV 100),
        ScalarV (IntV 7)]) = 1
   \<and> OptionV (opt_ItemCount ''optionalargs.h'') (IntV 100)
       \<in> set [OptionV (opt_VerboseLogs ''optionalargs.h'') (BoolV True),
              OptionV (opt_ItemCount ''optionalargs.h'') (IntV 100),
              ScalarV (IntV 7)]
   \<and> GetOptionValue (OptionT (opt_ItemCount ''optionalargs.h''))
       [OptionV (opt_VerboseLogs ''optionalargs.h'') (BoolV True),
        OptionV (opt_ItemCount ''optionalargs.h'') (IntV 100),
        ScalarV (IntV 7)] = Inr (IntV 100)"
proof -
  have one: "length (filter (\<lambda>a. type_of a = OptionT (opt_ItemCount ''optionalargs.h''))
       [OptionV (opt_VerboseLogs ''optionalargs.h'') (BoolV True),
        OptionV (opt_ItemCount ''optionalargs.h'') (IntV 100),
        ScalarV (IntV 7)]) = 1"
    by (simp add: opt_ItemCount_def opt_VerboseLogs_def DECLARE_OPTION_DEFAULT_def)
  have mem: "OptionV (opt_ItemCount ''optionalargs.h'') (IntV 100)
       \<in> set [OptionV (opt_VerboseLogs ''optionalargs.h'') (BoolV True),
              OptionV (opt_ItemCount ''optionalargs.h'') (IntV 100),
              ScalarV (IntV 7)]"
    by simp
  from one mem GetOptionValue_presence [OF one mem] show ?thesis
    by (intro conjI)
qed

section \<open>Properties of \<^verbatim>\<open>GetOptionValueWithDefault\<close>\<close>

lemma implicit_conversion_same_type:
  "implicit_conversion (stype_of v) v = Inr v"
  by (cases v) simp_all

lemma GetOptionValueWithDefault_from_absent:
  assumes "\<forall>a \<in> set args. type_of a \<noteq> T"
  shows "GetOptionValueWithDefault_from visible T defaultValue args = Inr defaultValue"
  using assms
  by (induction visible T defaultValue args rule: GetOptionValueWithDefault_from.induct)
     (simp_all add: GetOptionValueWithDefault_0_def GetOptionValueWithDefault_1_def
        GetOptionValueWithDefault_n_def)

lemma GetOptionValueWithDefault_from_option_find:
  "GetOptionValueWithDefault_from visible (OptionT ot) defaultValue args =
     (case find (\<lambda>a. type_of a = OptionT ot) args of
        None \<Rightarrow> Inr defaultValue
      | Some a \<Rightarrow> return_m_value (stype_of defaultValue) a)"
proof (induction visible "OptionT ot" defaultValue args
    rule: GetOptionValueWithDefault_from.induct)
  case (1 visible defaultValue)
  show ?case by (simp add: GetOptionValueWithDefault_0_def)
next
  case (2 visible defaultValue arg)
  show ?case
    by (cases "type_of arg = OptionT ot")
       (simp_all add: GetOptionValueWithDefault_0_def GetOptionValueWithDefault_1_def
          GetOptionValueWithDefault_n_def)
next
  case (3 visible defaultValue arg a restArgs)
  then show ?case
    by (cases "type_of arg = OptionT ot")
       (simp_all add: GetOptionValueWithDefault_n_def)
qed

text \<open>
  Claim C2, as the code has it. When the argument sequence holds two instances of the
  option type \<open>T\<close>, the earlier one with payload \<open>v1\<close> and a later one with payload
  \<open>v2\<close>, the leftmost match wins in both lookups and what follows it is ignored:
  \<^verbatim>\<open>GetOptionValue<T>\<close> returns \<open>v1\<close>, and \<^verbatim>\<open>GetOptionValueWithDefault<T>\<close> returns
  \<open>v1\<close> converted to the type of the supplied default, from which its return type is
  deduced. That is \<open>v1\<close> itself when the default has the type of the payload.
\<close>

theorem leftmost_match_wins:
  assumes "\<forall>a \<in> set pre. type_of a \<noteq> OptionT ot"
  shows "GetOptionValue (OptionT ot) (pre @ OptionV ot v1 # mid @ OptionV ot v2 # post)
           = Inr v1
       \<and> GetOptionValueWithDefault (OptionT ot) defaultValue
           (pre @ OptionV ot v1 # mid @ OptionV ot v2 # post)
           = implicit_conversion (stype_of defaultValue) v1
       \<and> (stype_of defaultValue = stype_of v1 \<longrightarrow>
            GetOptionValueWithDefault (OptionT ot) defaultValue
              (pre @ OptionV ot v1 # mid @ OptionV ot v2 # post) = Inr v1)"
proof -
  have first: "find (\<lambda>a. type_of a = OptionT ot)
      (pre @ OptionV ot v1 # mid @ OptionV ot v2 # post) = Some (OptionV ot v1)"
    using assms by (intro find_first_match) simp_all
  have plain: "GetOptionValue (OptionT ot)
      (pre @ OptionV ot v1 # mid @ OptionV ot v2 # post) = Inr v1"
    using first by (simp add: GetOptionValue_def GetOptionValue_from_find)
  have dflt: "GetOptionValueWithDefault (OptionT ot) defaultValue
      (pre @ OptionV ot v1 # mid @ OptionV ot v2 # post)
      = implicit_conversion (stype_of defaultValue) v1"
    using first
    by (simp add: GetOptionValueWithDefault_def GetOptionValueWithDefault_from_option_find
        return_m_value_def)
  have same: "implicit_conversion (stype_of defaultValue) v1 = Inr v1"
    if "stype_of defaultValue = stype_of v1"
    using that implicit_conversion_same_type [of v1] by simp
  from plain dflt same show ?thesis by simp
qed

theorem leftmost_match_wins_witness:
  "type_of (OptionV (opt_VerboseLogs ''optionalargs.h'') (BoolV True))
     \<noteq> OptionT (opt_ItemCount ''optionalargs.h'')
   \<and> stype_of (IntV 256) = stype_of (IntV 50)
   \<and> GetOptionValue (OptionT (opt_ItemCount ''optionalargs.h''))
       [OptionV (opt_VerboseLogs ''optionalargs.h'') (BoolV True),
        OptionV (opt_ItemCount ''optionalargs.h'') (IntV 50),
        OptionV (opt_ItemCount ''optionalargs.h'') (IntV 60)] = Inr (IntV 50)
   \<and> GetOptionValueWithDefault (OptionT (opt_ItemCount ''optionalargs.h'')) (IntV 256)
       [OptionV (opt_VerboseLogs ''optionalargs.h'') (BoolV True),
        OptionV (opt_ItemCount ''optionalargs.h'') (IntV 50),
        OptionV (opt_ItemCount ''optionalargs.h'') (IntV 60)] = Inr (IntV 50)"
proof -
  have h1: "\<forall>a \<in> set [OptionV (opt_VerboseLogs ''optionalargs.h'') (BoolV True)].
      type_of a \<noteq> OptionT (opt_ItemCount ''optionalargs.h'')"
    by (simp add: opt_ItemCount_def opt_VerboseLogs_def DECLARE_OPTION_DEFAULT_def)
  from leftmost_match_wins [OF h1, of "IntV 50" "[]" "IntV 60" "[]" "IntV 256"] h1
  show ?thesis by simp
qed

text \<open>
  Claim C2 as the specification words it, with \<open>v1\<close> returned by the default-aware lookup
  whatever the supplied default, fails for a default of another type: with the default
  \<^verbatim>\<open>false\<close> and the arguments \<^verbatim>\<open>ItemCount(256), ItemCount(60)\<close> the lookup returns
  \<open>True\<close>, the first payload converted to \<^verbatim>\<open>bool\<close>.
\<close>

theorem leftmost_match_default_type_counterexample:
  "GetOptionValueWithDefault (OptionT (opt_ItemCount ''optionalargs.h'')) (BoolV False)
     [OptionV (opt_ItemCount ''optionalargs.h'') (IntV 256),
      OptionV (opt_ItemCount ''optionalargs.h'') (IntV 60)] = Inr (BoolV True)
   \<and> GetOptionValueWithDefault (OptionT (opt_ItemCount ''optionalargs.h'')) (BoolV False)
     [OptionV (opt_ItemCount ''optionalargs.h'') (IntV 256),
      OptionV (opt_ItemCount ''optionalargs.h'') (IntV 60)] \<noteq> Inr (IntV 256)"
  by (simp add: GetOptionValueWithDefault_def GetOptionValueWithDefault_n_def
      return_m_value_def)

text \<open>
  Claim C4. When the argument sequence holds no instance of \<open>T\<close> (the empty sequence
  included), \<^verbatim>\<open>GetOptionValueWithDefault<T>(defaultValue, args...)\<close> returns exactly the
  supplied \<open>defaultValue\<close>, whatever default the declaration of \<open>T\<close> carries.
\<close>

theorem supplied_default_when_absent:
  assumes "\<forall>a \<in> set args. type_of a \<noteq> T"
  shows "GetOptionValueWithDefault T defaultValue args = Inr defaultValue"
  using assms
  by (simp add: GetOptionValueWithDefault_def GetOptionValueWithDefault_from_absent)

theorem supplied_default_when_absent_witness:
  "type_of (OptionV (opt_VerboseLogs ''optionalargs.h'') (BoolV True))
     \<noteq> OptionT (opt_ItemCount ''optionalargs.h'')
   \<and> type_of (ScalarV (IntV 3)) \<noteq> OptionT (opt_ItemCount ''optionalargs.h'')
   \<and> GetOptionValueWithDefault (OptionT (opt_ItemCount ''optionalargs.h'')) (IntV 7)
       [OptionV (opt_VerboseLogs ''optionalargs.h'') (BoolV True), ScalarV (IntV 3)]
       = Inr (IntV 7)
   \<and> GetOptionValueWithDefault (OptionT (opt_ItemCount ''optionalargs.h'')) (IntV 7) []
       = Inr (IntV 7)"
proof -
  have h: "\<forall>a \<in> set [OptionV (opt_VerboseLogs ''optionalargs.h'') (BoolV True),
        ScalarV (IntV 3)].
      type_of a \<noteq> OptionT (opt_ItemCount ''optionalargs.h'')"
    by (simp add: opt_ItemCount_def opt_VerboseLogs_def DECLARE_OPTION_DEFAULT_def)
  have e: "\<forall>a \<in> set ([]::cval list).
      type_of a \<noteq> OptionT (opt_ItemCount ''optionalargs.h'')"
    by simp
  from h supplied_default_when_absent [OF h, of "IntV 7"]
    supplied_default_when_absent [OF e, of "IntV 7"]
  show ?thesis by simp
qed

section \<open>Absence of the option in \<^verbatim>\<open>GetOptionValue\<close>\<close>




section \<open>Identity of option types\<close>

text \<open>
  Claim C7. Two declarations with the same value type and the same default, made at
  different declaration sites (file and line), produce different option types, and an
  argument sequence made of instances of one of them never satisfies a lookup of the
  other: that lookup takes its absence path.
\<close>

theorem distinct_declaration_sites:
  assumes "(file1, line1) \<noteq> (file2, line2)"
    and "(T1 = DECLARE_OPTION V file1 line1 \<and> T2 = DECLARE_OPTION V file2 line2)
       \<or> (T1 = DECLARE_OPTION_DEFAULT V d file1 line1
          \<and> T2 = DECLARE_OPTION_DEFAULT V d file2 line2)"
    and "\<forall>a \<in> set args. type_of a = OptionT T1"
  shows "T1 \<noteq> T2
       \<and> GetOptionValue (OptionT T2) args = GetOptionValue (OptionT T2) []
       \<and> GetOptionValueWithDefault (OptionT T2) defaultValue args = Inr defaultValue"
proof -
  have ne: "T1 \<noteq> T2"
    using assms(1,2) by (auto simp: DECLARE_OPTION_def DECLARE_OPTION_DEFAULT_def)
  with assms(3) have absent: "\<forall>a \<in> set args. type_of a \<noteq> OptionT T2"
    by simp
  then have "find (\<lambda>a. type_of a = OptionT T2) args = None"
    by (intro find_no_match) simp
  then have "GetOptionValue (OptionT T2) args = GetOptionValue (OptionT T2) []"
    by (simp add: GetOptionValue_def GetOptionValue_from_find)
  moreover have "GetOptionValueWithDefault (OptionT T2) defaultValue args = Inr defaultValue"
    using absent
    by (simp add: GetOptionValueWithDefault_def GetOptionValueWithDefault_from_absent)
  ultimately show ?thesis using ne by simp
qed

theorem distinct_declaration_sites_witness:
  "(''optionalargs.h'', 120::32 word) \<noteq> (''optionalargs.h'', 125)
   \<and> type_of (OptionV (DECLARE_OPTION_DEFAULT IntT (IntV 256) ''optionalargs.h'' 120)
         (IntV 50))
       = OptionT (DECLARE_OPTION_DEFAULT IntT (IntV 256) ''optionalargs.h'' 120)
   \<and> DECLARE_OPTION_DEFAULT IntT (IntV 256) ''optionalargs.h'' 120
       \<noteq> DECLARE_OPTION_DEFAULT IntT (IntV 256) ''optionalargs.h'' 125
   \<and> GetOptionValue (OptionT (DECLARE_OPTION_DEFAULT IntT (IntV 256) ''optionalargs.h'' 125))
       [OptionV (DECLARE_OPTION_DEFAULT IntT (IntV 256) ''optionalargs.h'' 120) (IntV 50)]
       = GetOptionValue
           (OptionT (DECLARE_OPTION_DEFAULT IntT (IntV 256) ''optionalargs.h'' 125)) []
   \<and> GetOptionValueWithDefault
       (OptionT (DECLARE_OPTION_DEFAULT IntT (IntV 256) ''optionalargs.h'' 125)) (IntV 9)
       [OptionV (DECLARE_OPTION_DEFAULT IntT (IntV 256) ''optionalargs.h'' 120) (IntV 50)]
       = Inr (IntV 9)"
proof -
  have h1: "(''optionalargs.h'', 120::32 word) \<noteq> (''optionalargs.h'', 125)"
    by simp
  have h2: "(DECLARE_OPTION_DEFAULT IntT (IntV 256) ''optionalargs.h'' 120
               = DECLARE_OPTION IntT ''optionalargs.h'' 120
             \<and> DECLARE_OPTION_DEFAULT IntT (IntV 256) ''optionalargs.h'' 125
               = DECLARE_OPTION IntT ''optionalargs.h'' 125)
       \<or> (DECLARE_OPTION_DEFAULT IntT (IntV 256) ''optionalargs.h'' 120
               = DECLARE_OPTION_DEFAULT IntT (IntV 256) ''optionalargs.h'' 120
          \<and> DECLARE_OPTION_DEFAULT IntT (IntV 256) ''optionalargs.h'' 125
               = DECLARE_OPTION_DEFAULT IntT (IntV 256) ''optionalargs.h'' 125)"
    by simp
  have h3: "\<forall>a \<in> set [OptionV (DECLARE_OPTION_DEFAULT IntT (IntV 256) ''optionalargs.h'' 120)
                    (IntV 50)].
        type_of a = OptionT (DECLARE_OPTION_DEFAULT IntT (IntV 256) ''optionalargs.h'' 120)"
    by simp
  from distinct_declaration_sites [OF h1 h2 h3, of "IntV 9"] h1 h3
  show ?thesis by (intro conjI) simp_all
qed

section \<open>Construction of option instances\<close>

lemma implicit_conversion_convertible:
  assumes "is_convertible_s (stype_of d) V"
  shows "\<exists>v. stype_of v = V \<and> implicit_conversion V d = Inr v"
  using assms by (cases V; cases d) auto

lemma implicit_conversion_not_convertible:
  assumes "\<not> is_convertible_s (stype_of d) V"
  shows "implicit_conversion V d = Inl NotConvertible"
  using assms by (cases V; cases d) auto

text \<open>
  Claim C8, as the code has it. An option type declared without a default
  (\<^verbatim>\<open>OptionalArg_t\<close>) is default-constructible, and the payload of the instance is the
  zero of the value type: 0, \<open>False\<close>, the enumeration value 0. An option type declared
  with a default \<open>d\<close> (\<^verbatim>\<open>OptionalArgWithDefault_t\<close>) is default-constructible exactly
  when \<open>d\<close> converts implicitly to the value type; the payload is then \<open>d\<close> converted to
  the value type, which is \<open>d\<close> itself when \<open>d\<close> has the value type (an \<^verbatim>\<open>int\<close> default
  \<open>n\<close> of a \<^verbatim>\<open>bool\<close> option gives \<open>n \<noteq> 0\<close>, a \<^verbatim>\<open>bool\<close> default of an \<^verbatim>\<open>int\<close> option
  gives 1 or 0), and default construction is rejected when \<open>d\<close> does not convert. An
  instance constructed from an explicit value of the value type has that value as payload,
  for both kinds of declaration.
\<close>

theorem option_instance_payload:
  "default_construct (DECLARE_OPTION IntT file line)
     = Inr (OptionV (DECLARE_OPTION IntT file line) (IntV 0))
   \<and> default_construct (DECLARE_OPTION BoolT file line)
     = Inr (OptionV (DECLARE_OPTION BoolT file line) (BoolV False))
   \<and> default_construct (DECLARE_OPTION (EnumT ns nm) file line)
     = Inr (OptionV (DECLARE_OPTION (EnumT ns nm) file line) (EnumV ns nm 0))
   \<and> (stype_of d = V \<longrightarrow>
        default_construct (DECLARE_OPTION_DEFAULT V d file line)
          = Inr (OptionV (DECLARE_OPTION_DEFAULT V d file line) d))
   \<and> (is_convertible_s (stype_of d) V \<longrightarrow>
        (\<exists>v. stype_of v = V \<and> implicit_conversion V d = Inr v
           \<and> default_construct (DECLARE_OPTION_DEFAULT V d file line)
               = Inr (OptionV (DECLARE_OPTION_DEFAULT V d file line) v)))
   \<and> (\<not> is_convertible_s (stype_of d) V \<longrightarrow>
        default_construct (DECLARE_OPTION_DEFAULT V d file line) = Inl NotConvertible)
   \<and> default_construct (DECLARE_OPTION_DEFAULT BoolT (IntV n) file line)
     = Inr (OptionV (DECLARE_OPTION_DEFAULT BoolT (IntV n) file line) (BoolV (n \<noteq> 0)))
   \<and> default_construct (DECLARE_OPTION_DEFAULT IntT (BoolV b) file line)
     = Inr (OptionV (DECLARE_OPTION_DEFAULT IntT (BoolV b) file line)
         (IntV (if b then 1 else 0)))
   \<and> (stype_of x = ValueType_t ot \<longrightarrow> construct ot x = Inr (OptionV ot x))
   \<and> (stype_of x = V \<longrightarrow>
        construct (DECLARE_OPTION V file line) x
          = Inr (OptionV (DECLARE_OPTION V file line) x)
      \<and> construct (DECLARE_OPTION_DEFAULT V d file line) x
          = Inr (OptionV (DECLARE_OPTION_DEFAULT V d file line) x))"
proof -
  have z1: "default_construct (DECLARE_OPTION IntT file line)
     = Inr (OptionV (DECLARE_OPTION IntT file line) (IntV 0))"
    by (simp add: DECLARE_OPTION_def)
  have z2: "default_construct (DECLARE_OPTION BoolT file line)
     = Inr (OptionV (DECLARE_OPTION BoolT file line) (BoolV False))"
    by (simp add: DECLARE_OPTION_def)
  have z3: "default_construct (DECLARE_OPTION (EnumT ns nm) file line)
     = Inr (OptionV (DECLARE_OPTION (EnumT ns nm) file line) (EnumV ns nm 0))"
    by (simp add: DECLARE_OPTION_def)
  have same: "default_construct (DECLARE_OPTION_DEFAULT V d file line)
          = Inr (OptionV (DECLARE_OPTION_DEFAULT V d file line) d)"
    if "stype_of d = V"
    using that implicit_conversion_same_type [of d]
    by (simp add: DECLARE_OPTION_DEFAULT_def)
  have conv: "\<exists>v. stype_of v = V \<and> implicit_conversion V d = Inr v
           \<and> default_construct (DECLARE_OPTION_DEFAULT V d file line)
               = Inr (OptionV (DECLARE_OPTION_DEFAULT V d file line) v)"
    if "is_convertible_s (stype_of d) V"
  proof -
    from that obtain v where v: "stype_of v = V" "implicit_conversion V d = Inr v"
      using implicit_conversion_convertible by blast
    then have "default_construct (DECLARE_OPTION_DEFAULT V d file line)
        = Inr (OptionV (DECLARE_OPTION_DEFAULT V d file line) v)"
      by (simp add: DECLARE_OPTION_DEFAULT_def)
    with v show ?thesis by blast
  qed
  have rej: "default_construct (DECLARE_OPTION_DEFAULT V d file line) = Inl NotConvertible"
    if "\<not> is_convertible_s (stype_of d) V"
    using implicit_conversion_not_convertible [OF that]
    by (simp add: DECLARE_OPTION_DEFAULT_def)
  have c1: "default_construct (DECLARE_OPTION_DEFAULT BoolT (IntV n) file line)
     = Inr (OptionV (DECLARE_OPTION_DEFAULT BoolT (IntV n) file line) (BoolV (n \<noteq> 0)))"
    by (simp add: DECLARE_OPTION_DEFAULT_def)
  have c2: "default_construct (DECLARE_OPTION_DEFAULT IntT (BoolV b) file line)
     = Inr (OptionV (DECLARE_OPTION_DEFAULT IntT (BoolV b) file line)
         (IntV (if b then 1 else 0)))"
    by (simp add: DECLARE_OPTION_DEFAULT_def)
  have e1: "construct ot x = Inr (OptionV ot x)" if "stype_of x = ValueType_t ot"
    using that implicit_conversion_same_type [of x] by (simp add: construct_def)
  have e2: "construct (DECLARE_OPTION V file line) x
          = Inr (OptionV (DECLARE_OPTION V file line) x)
      \<and> construct (DECLARE_OPTION_DEFAULT V d file line) x
          = Inr (OptionV (DECLARE_OPTION_DEFAULT V d file line) x)"
    if "stype_of x = V"
    using that implicit_conversion_same_type [of x]
    by (simp add: construct_def DECLARE_OPTION_def DECLARE_OPTION_DEFAULT_def)
  from z1 z2 z3 same conv rej c1 c2 e1 e2 show ?thesis
    by (intro conjI impI) blast+
qed

theorem option_instance_payload_witness:
  "default_construct (DECLARE_OPTION BoolT ''optionalargs.h'' 7)
     = Inr (OptionV (DECLARE_OPTION BoolT ''optionalargs.h'' 7) (BoolV False))
   \<and> stype_of (IntV 256) = IntT
   \<and> default_construct (opt_ItemCount ''optionalargs.h'')
       = Inr (OptionV (opt_ItemCount ''optionalargs.h'') (IntV 256))
   \<and> is_convertible_s (stype_of (IntV 5)) BoolT
   \<and> default_construct (DECLARE_OPTION_DEFAULT BoolT (IntV 5) ''optionalargs.h'' 7)
       = Inr (OptionV (DECLARE_OPTION_DEFAULT BoolT (IntV 5) ''optionalargs.h'' 7)
           (BoolV True))
   \<and> \<not> is_convertible_s (stype_of (IntV 1)) (EnumT [] ''Color'')
   \<and> default_construct
       (DECLARE_OPTION_DEFAULT (EnumT [] ''Color'') (IntV 1) ''optionalargs.h'' 7)
       = Inl NotConvertible
   \<and> stype_of (IntV 50) = ValueType_t (opt_ItemCount ''optionalargs.h'')
   \<and> construct (opt_ItemCount ''optionalargs.h'') (IntV 50)
       = Inr (OptionV (opt_ItemCount ''optionalargs.h'') (IntV 50))"
  using option_instance_payload [of "''optionalargs.h''" 7 "[]" "[]" "IntV 5" BoolT 5
      True "IntV 50" "opt_ItemCount ''optionalargs.h''"]
    option_instance_payload [of "''optionalargs.h''" 7 "[]" "[]" "IntV 1"
      "EnumT [] ''Color''" 5 True "IntV 50" "opt_ItemCount ''optionalargs.h''"]
    option_instance_payload [of "''optionalargs.h''" 120 "[]" "[]" "IntV 256" IntT 5
      True "IntV 50" "opt_ItemCount ''optionalargs.h''"]
  by (simp add: opt_ItemCount_def DECLARE_OPTION_DEFAULT_def)

text \<open>
  Claim C8 as the specification words it fails for a declared default that is not of the
  value type. The option type declared with value type \<^verbatim>\<open>Color\<close> (an enumeration) and
  default \<^verbatim>\<open>1\<close> is not default-constructible, and the one declared with value type
  \<^verbatim>\<open>bool\<close> and default \<^verbatim>\<open>5\<close> has the payload \<open>True\<close>, not the declared 5.
\<close>

theorem option_default_conversion_counterexample:
  "default_construct
     (DECLARE_OPTION_DEFAULT (EnumT [] ''Color'') (IntV 1) ''optionalargs.h'' 7)
     = Inl NotConvertible
   \<and> default_construct (DECLARE_OPTION_DEFAULT BoolT (IntV 5) ''optionalargs.h'' 7)
     = Inr (OptionV (DECLARE_OPTION_DEFAULT BoolT (IntV 5) ''optionalargs.h'' 7)
         (BoolV True))
   \<and> default_construct (DECLARE_OPTION_DEFAULT BoolT (IntV 5) ''optionalargs.h'' 7)
     \<noteq> Inr (OptionV (DECLARE_OPTION_DEFAULT BoolT (IntV 5) ''optionalargs.h'' 7)
         (IntV 5))"
  by (simp add: DECLARE_OPTION_DEFAULT_def)

section \<open>Bare scalars\<close>

lemma is_convertible_s_refl: "is_convertible_s t t"
  by (cases t) simp_all

text \<open>
  The variadic overload of the default-aware lookup hands a matching bare scalar back: a
  scalar of type \<open>T\<close> that is followed by at least one more argument is returned as it is.
\<close>

lemma GetOptionValueWithDefault_from_scalar_before_last:
  assumes "\<forall>a \<in> set pre. type_of a \<noteq> T"
    and "type_of (ScalarV s) = T"
    and "stype_of defaultValue = stype_of s"
  shows "GetOptionValueWithDefault_from visible T defaultValue (pre @ ScalarV s # x # post)
           = Inr s"
  using assms
proof (induction pre arbitrary: visible)
  case Nil
  then show ?case
    using implicit_conversion_same_type [of s] is_convertible_s_refl [of "stype_of s"]
    by (auto simp: GetOptionValueWithDefault_n_def)
next
  case (Cons p ps)
  then have IH: "GetOptionValueWithDefault_from False T defaultValue
      (ps @ ScalarV s # x # post) = Inr s"
    by simp
  obtain a rest where split: "ps @ ScalarV s # x # post = a # rest"
    by (cases ps) simp_all
  from Cons.prems(1) have "type_of p \<noteq> T" by simp
  then show ?case
    using IH split by (simp add: GetOptionValueWithDefault_n_def)
qed

text \<open>
  Claim C9. \<^verbatim>\<open>GetOptionValue<T>\<close> has no path for bare scalars: at the first argument
  whose type is \<open>T\<close>, at any position and also the last one, it reads the member
  \<^verbatim>\<open>m_value\<close> of that argument. For an instance of an option type that is its payload;
  for a bare scalar there is no such member and the call is rejected, while
  \<^verbatim>\<open>GetOptionValueWithDefault<T>\<close> returns the scalar (here: one that is followed by
  another argument, with a default of the same type).
\<close>

theorem GetOptionValue_reads_m_value:
  assumes "\<forall>a \<in> set pre. type_of a \<noteq> T"
    and "type_of arg = T"
  shows "GetOptionValue T (pre @ arg # post) = member_m_value arg
       \<and> GetOptionValue T (pre @ [arg]) = member_m_value arg
       \<and> (\<forall>ot v. arg = OptionV ot v \<longrightarrow> GetOptionValue T (pre @ arg # post) = Inr v)
       \<and> (\<forall>s. arg = ScalarV s \<longrightarrow>
             GetOptionValue T (pre @ arg # post) = Inl NoMember_m_value
           \<and> (stype_of defaultValue = stype_of s \<longrightarrow>
                GetOptionValueWithDefault T defaultValue (pre @ arg # x # post) = Inr s))"
proof -
  have first: "find (\<lambda>a. type_of a = T) (pre @ arg # ys) = Some arg" for ys
    using assms by (intro find_first_match) simp_all
  have read: "GetOptionValue T (pre @ arg # ys) = member_m_value arg" for ys
    using first [of ys] by (simp add: GetOptionValue_def GetOptionValue_from_find)
  have accept: "GetOptionValueWithDefault T defaultValue (pre @ arg # x # post) = Inr s"
    if "arg = ScalarV s" and "stype_of defaultValue = stype_of s" for s
    using that assms GetOptionValueWithDefault_from_scalar_before_last
      [of pre T s defaultValue True x post]
    by (simp add: GetOptionValueWithDefault_def)
  show ?thesis
    using read [of post] read [of "[]"] accept by auto
qed

theorem GetOptionValue_reads_m_value_witness:
  "type_of (OptionV (opt_VerboseLogs ''optionalargs.h'') (BoolV True))
     \<noteq> ScalarT (EnumT ''gfx'' ''Mode'')
   \<and> type_of (ScalarV (EnumV ''gfx'' ''Mode'' 2)) = ScalarT (EnumT ''gfx'' ''Mode'')
   \<and> GetOptionValue (ScalarT (EnumT ''gfx'' ''Mode''))
       [OptionV (opt_VerboseLogs ''optionalargs.h'') (BoolV True),
        ScalarV (EnumV ''gfx'' ''Mode'' 2)] = Inl NoMember_m_value
   \<and> stype_of (EnumV ''gfx'' ''Mode'' 0) = stype_of (EnumV ''gfx'' ''Mode'' 2)
   \<and> GetOptionValueWithDefault (ScalarT (EnumT ''gfx'' ''Mode'')) (EnumV ''gfx'' ''Mode'' 0)
       [OptionV (opt_VerboseLogs ''optionalargs.h'') (BoolV True),
        ScalarV (EnumV ''gfx'' ''Mode'' 2),
        OptionV (opt_ItemCount ''optionalargs.h'') (IntV 50)] = Inr (EnumV ''gfx'' ''Mode'' 2)"
proof -
  have h1: "\<forall>a \<in> set [OptionV (opt_VerboseLogs ''optionalargs.h'') (BoolV True)].
      type_of a \<noteq> ScalarT (EnumT ''gfx'' ''Mode'')"
    by simp
  have h2: "type_of (ScalarV (EnumV ''gfx'' ''Mode'' 2)) = ScalarT (EnumT ''gfx'' ''Mode'')"
    by simp
  from GetOptionValue_reads_m_value [OF h1 h2, of "[]" "EnumV ''gfx'' ''Mode'' 0"
      "OptionV (opt_ItemCount ''optionalargs.h'') (IntV 50)"] h1 h2
  show ?thesis by simp
qed

text \<open>
  Claim C5, the scalar path of \<^verbatim>\<open>GetOptionValueWithDefault<T>\<close>. The variadic overload
  (lines 81-99) tests convertibility first and returns a matching bare scalar, as the lemma
  \<open>GetOptionValueWithDefault_from_scalar_before_last\<close> shows. The single-argument
  overload (lines 101-112) has no such test and reads \<^verbatim>\<open>arg.m_value\<close>: with a bare
  scalar as the only argument after the default the call is rejected, for an enumeration
  and for \<^verbatim>\<open>int\<close> alike, while the same scalar followed by one more argument is returned.
\<close>

theorem GetOptionValueWithDefault_scalar_last_rejected:
  "GetOptionValueWithDefault (ScalarT (EnumT [] ''Color'')) (EnumV [] ''Color'' 0)
     [ScalarV (EnumV [] ''Color'' 1)] = Inl NoMember_m_value
   \<and> GetOptionValueWithDefault (ScalarT IntT) (IntV 0) [ScalarV (IntV 5)]
       = Inl NoMember_m_value
   \<and> GetOptionValueWithDefault (ScalarT (EnumT [] ''Color'')) (EnumV [] ''Color'' 0)
       [ScalarV (EnumV [] ''Color'' 1), OptionV (opt_ItemCount ''optionalargs.h'') (IntV 50)]
       = Inr (EnumV [] ''Color'' 1)
   \<and> GetOptionValueWithDefault (ScalarT IntT) (IntV 0)
       [ScalarV (IntV 5), OptionV (opt_ItemCount ''optionalargs.h'') (IntV 50)]
       = Inr (IntV 5)"
  by (simp add: GetOptionValueWithDefault_def GetOptionValueWithDefault_1_def
      GetOptionValueWithDefault_n_def return_m_value_def)

section \<open>The setter pattern\<close>

lemma opt_ItemCount_neq_opt_VerboseLogs: "opt_ItemCount file \<noteq> opt_VerboseLogs file"
  by (simp add: opt_ItemCount_def opt_VerboseLogs_def DECLARE_OPTION_DEFAULT_def)

text \<open>
  Claim C6, as the code has it. Constructing \<^verbatim>\<open>TestClass\<close> with an item count and a
  verbosity flag gives the same object and the same log in either order of the two
  arguments. With no arguments the object has \<open>m_nNumItems = 101\<close> (the member's own
  initialiser) and \<open>m_bVerboseLogs = False\<close>; with \<^verbatim>\<open>ItemCount(50)\<close> it has 50 and
  \<open>False\<close>; with \<^verbatim>\<open>VerboseLogs(true), ItemCount(100)\<close> it has 100 and \<open>True\<close>.
\<close>

theorem TestClass_setter_pattern:
  "TestClass_ctor file pMsg
     [OptionV (opt_ItemCount file) (IntV n), OptionV (opt_VerboseLogs file) (BoolV b)]
   = TestClass_ctor file pMsg
     [OptionV (opt_VerboseLogs file) (BoolV b), OptionV (opt_ItemCount file) (IntV n)]
   \<and> TestClass_ctor file pMsg
       [OptionV (opt_ItemCount file) (IntV 1), OptionV (opt_VerboseLogs file) (BoolV True)]
     = Inr (\<lparr>m_nNumItems = 1, m_pData = Some 1, m_bVerboseLogs = True\<rparr>,
            [(''TestClass'', [LogStr pMsg]), (''item count=%d'', [LogInt 1])])
   \<and> TestClass_ctor file pMsg []
     = Inr (\<lparr>m_nNumItems = 101, m_pData = Some 101, m_bVerboseLogs = False\<rparr>,
            [(''TestClass'', [LogStr pMsg])])
   \<and> TestClass_ctor file pMsg [OptionV (opt_ItemCount file) (IntV 50)]
     = Inr (\<lparr>m_nNumItems = 50, m_pData = Some 50, m_bVerboseLogs = False\<rparr>,
            [(''TestClass'', [LogStr pMsg])])
   \<and> TestClass_ctor file pMsg
       [OptionV (opt_VerboseLogs file) (BoolV True), OptionV (opt_ItemCount file) (IntV 100)]
     = Inr (\<lparr>m_nNumItems = 100, m_pData = Some 100, m_bVerboseLogs = True\<rparr>,
            [(''TestClass'', [LogStr pMsg]), (''item count=%d'', [LogInt 100])])"
  using opt_ItemCount_neq_opt_VerboseLogs [of "file"]
  by (simp add: TestClass_ctor_def TestClass_init_def)

theorem TestClass_setter_pattern_witness:
  "TestClass_ctor ''optionalargs.h'' ''no args'' []
     = Inr (\<lparr>m_nNumItems = 101, m_pData = Some 101, m_bVerboseLogs = False\<rparr>,
            [(''TestClass'', [LogStr ''no args''])])
   \<and> TestClass_ctor ''optionalargs.h'' ''both args''
       [OptionV (opt_ItemCount ''optionalargs.h'') (IntV 1024),
        OptionV (opt_VerboseLogs ''optionalargs.h'') (BoolV True)]
     = TestClass_ctor ''optionalargs.h'' ''both args''
       [OptionV (opt_VerboseLogs ''optionalargs.h'') (BoolV True),
        OptionV (opt_ItemCount ''optionalargs.h'') (IntV 1024)]"
  using TestClass_setter_pattern [of "''optionalargs.h''" "''no args''" 1024 True]
    TestClass_setter_pattern [of "''optionalargs.h''" "''both args''" 1024 True]
  by (intro conjI) blast+

text \<open>
  Claim C6 as the specification words it, with 256 items when no argument is given, fails:
  the setter pattern never consults the default of \<^verbatim>\<open>opt::ItemCount\<close>, and the member
  keeps its own initial value 101.
\<close>

theorem TestClass_no_arguments_counterexample:
  "map_sum id (m_nNumItems \<circ> fst) (TestClass_ctor ''optionalargs.h'' ''no args'' [])
     = Inr 101
   \<and> map_sum id (m_nNumItems \<circ> fst) (TestClass_ctor ''optionalargs.h'' ''no args'' [])
     \<noteq> Inr 256"
  by (simp add: TestClass_ctor_def TestClass_init_def)

end
